theory Spec2Isabelle
  imports Main "HOL-Library.Sublist"
begin

section \<open>Python values, the configuration file and the converter object\<close>

text \<open>
  The values \<open>json.load\<close> can return and \<open>json.dump\<close> can write: \<open>None\<close>, booleans,
  integers, strings, lists and dictionaries with string keys (floating-point numbers are
  left out). A dictionary is an association list; \<open>dict.get\<close> is a lookup in it.
\<close>

datatype json =
    JNull
  | JBool bool
  | JInt int
  | JStr string
  | JList "json list"
  | JDict "(string \<times> json) list"

datatype exn = OSError | JSONDecodeError | AttributeError | TypeError | KeyError

text \<open>\<open>d.get(k, default)\<close> on a dictionary.\<close>

definition dict_get :: "(string \<times> json) list \<Rightarrow> string \<Rightarrow> json \<Rightarrow> json" where
  "dict_get d k dflt = (case map_of d k of None \<Rightarrow> dflt | Some v \<Rightarrow> v)"

text \<open>\<open>project['name']\<close>: only a dictionary that has the key answers.\<close>

fun getitem :: "json \<Rightarrow> string \<Rightarrow> exn + json" where
  "getitem (JDict d) k = (case map_of d k of None \<Rightarrow> Inl KeyError | Some v \<Rightarrow> Inr v)"
| "getitem _ k = Inl TypeError"

text \<open>
  \<open>xs[-5:]\<close>: the last five elements of a list (all of them when there are fewer), the
  last five characters of a string, an exception on every other value (a \<open>TypeError\<close>;
  for a dictionary the class of the exception depends on the version of Python).
\<close>

definition last5 :: "'a list \<Rightarrow> 'a list" where
  "last5 xs = drop (length xs - 5) xs"

fun slice_last5 :: "json \<Rightarrow> exn + json list" where
  "slice_last5 (JList xs) = Inr (last5 xs)"
| "slice_last5 (JStr s) = Inr (map (\<lambda>c. JStr [c]) (last5 s))"
| "slice_last5 _ = Inl TypeError"

text \<open>
  The file at \<open>~/.pyapkconverter/config.json\<close> is a text file; the model keeps what
  \<open>json.load\<close> makes of the text: the value it denotes, or \<open>Garbage\<close> when the text does
  not parse (an empty or half-written file among others).
\<close>

datatype file_content = Json json | Garbage

text \<open>What the operating system answers when the file is written or read.\<close>

datatype write_io = WriteOk | OpenWriteFails | DumpFails

datatype read_io = ReadOk | OpenReadFails

datatype log_entry = FailedToLoad exn | FailedToSave exn

text \<open>
  One command of the Recent Projects menu, as \<open>add_command\<close> receives it: the label and
  the project bound in the lambda.
\<close>

record menu_command =
  label :: json
  project :: json

text \<open>
  The \<open>PyToApkConverter\<close> object together with the file and the error log it writes.
  A Tk \<open>StringVar\<close> is the Python value last handed to its \<open>set\<close>; \<open>recent_projects\<close>
  is \<open>None\<close> as long as the attribute has not been assigned.
\<close>

record converter =
  config_file :: "file_content option"
  error_log :: "log_entry list"
  python_file :: json
  output_dir :: json
  recent_projects :: "json option"
  recent_menu :: "menu_command list"

text \<open>The part of the object the user sees in the form.\<close>

definition form :: "converter \<Rightarrow> json \<times> json \<times> json option \<times> menu_command list" where
  "form s = (python_file s, output_dir s, recent_projects s, recent_menu s)"

section \<open>The configuration store\<close>

text \<open>
  A \<open>pathlib\<close> path, as \<open>Path.home()\<close> returns it: the separator of the platform
  (\<open>/\<close>, or the backslash on Windows), the anchor (drive and root: \<open>/\<close>, \<open>//\<close>,
  \<open>C:\<close> followed by a backslash, or nothing for a relative path) and the components
  after the anchor.
\<close>

record path =
  sep :: string
  anchor :: string
  components :: "string list"

text \<open>\<open>sep.join(xs)\<close>.\<close>

fun join :: "string \<Rightarrow> string list \<Rightarrow> string" where
  "join s [] = []"
| "join s [x] = x"
| "join s (x # y # ys) = x @ s @ join s (y # ys)"

text \<open>
  \<open>str(p)\<close>: the anchor, then the components with the separator between them; the
  empty path is written as a dot.
\<close>

definition path_str :: "path \<Rightarrow> string" where
  "path_str p =
     (if anchor p = [] \<and> components p = [] then ''.''
      else anchor p @ join (sep p) (components p))"

text \<open>\<open>p / name\<close> for a name without a separator: one more component.\<close>

definition truediv :: "path \<Rightarrow> string \<Rightarrow> path" where
  "truediv p name = p\<lparr>components := components p @ [name]\<rparr>"

text \<open>The shape of the dictionary that \<open>init_config\<close> writes.\<close>

definition UserConfig :: "json \<Rightarrow> json \<Rightarrow> json \<Rightarrow> json" where
  "UserConfig pd od rp =
     JDict [(''last_python_dir'', pd), (''last_output_dir'', od), (''recent_projects'', rp)]"

definition default_config :: "path \<Rightarrow> json" where
  "default_config home =
     UserConfig (JStr (path_str home)) (JStr (path_str (truediv home ''APK_Output'')))
       (JList [])"

text \<open>
  Every operation returns the object and the exception that leaves the call, if any.
  \<open>save_body\<close> is the body of the \<open>try\<close> of \<open>save_config\<close>: opening the file for writing
  truncates it, so a failure of \<open>json.dump\<close> leaves a file that does not parse.
\<close>

fun save_body :: "write_io \<Rightarrow> json \<Rightarrow> converter \<Rightarrow> converter \<times> exn option" where
  "save_body OpenWriteFails config s = (s, Some OSError)"
| "save_body DumpFails config s = (s\<lparr>config_file := Some Garbage\<rparr>, Some OSError)"
| "save_body WriteOk config s = (s\<lparr>config_file := Some (Json config)\<rparr>, None)"

definition save_config :: "write_io \<Rightarrow> json \<Rightarrow> converter \<Rightarrow> converter \<times> exn option" where
  "save_config w config s =
     (case save_body w config s of
        (s', None) \<Rightarrow> (s', None)
      | (s', Some e) \<Rightarrow> (s'\<lparr>error_log := error_log s' @ [FailedToSave e]\<rparr>, None))"

definition init_config ::
  "path \<Rightarrow> bool \<Rightarrow> write_io \<Rightarrow> converter \<Rightarrow> converter \<times> exn option" where
  "init_config home mkdir_ok w s =
     (if \<not> mkdir_ok then (s, Some OSError)
      else if config_file s = None then save_config w (default_config home) s
      else (s, None))"

text \<open>The loop of \<open>update_recent_projects_menu\<close>: it stops at the first project without a name.\<close>

fun add_commands ::
  "json list \<Rightarrow> menu_command list \<Rightarrow> menu_command list \<times> exn option" where
  "add_commands [] m = (m, None)"
| "add_commands (p # ps) m =
     (case getitem p ''name'' of
        Inl e \<Rightarrow> (m, Some e)
      | Inr l \<Rightarrow> add_commands ps (m @ [\<lparr>label = l, project = p\<rparr>]))"

definition update_recent_projects_menu :: "converter \<Rightarrow> converter \<times> exn option" where
  "update_recent_projects_menu s =
     (let s1 = s\<lparr>recent_menu := []\<rparr> in
      case recent_projects s1 of
        None \<Rightarrow> (s1, Some AttributeError)
      | Some rp \<Rightarrow>
          (case slice_last5 rp of
             Inl e \<Rightarrow> (s1, Some e)
           | Inr ps \<Rightarrow>
               (case add_commands ps (recent_menu s1) of
                  (m, e) \<Rightarrow> (s1\<lparr>recent_menu := m\<rparr>, e))))"

text \<open>The body of the \<open>try\<close> of \<open>load_saved_config\<close>.\<close>

definition load_body :: "read_io \<Rightarrow> converter \<Rightarrow> converter \<times> exn option" where
  "load_body r s =
     (if r = OpenReadFails then (s, Some OSError)
      else case config_file s of
        None \<Rightarrow> (s, Some OSError)
      | Some Garbage \<Rightarrow> (s, Some JSONDecodeError)
      | Some (Json (JDict config)) \<Rightarrow>
          (let s1 = s\<lparr>output_dir := dict_get config ''last_output_dir'' (JStr [])\<rparr>;
               s2 = s1\<lparr>recent_projects := Some (dict_get config ''recent_projects'' (JList []))\<rparr>
           in update_recent_projects_menu s2)
      | Some (Json _) \<Rightarrow> (s, Some AttributeError))"

definition load_saved_config :: "read_io \<Rightarrow> converter \<Rightarrow> converter \<times> exn option" where
  "load_saved_config r s =
     (case load_body r s of
        (s', None) \<Rightarrow> (s', None)
      | (s', Some e) \<Rightarrow> (s'\<lparr>error_log := error_log s' @ [FailedToLoad e]\<rparr>, None))"

text \<open>
  \<open>__init__\<close>: the two \<open>StringVar\<close>s start empty, \<open>setup_gui\<close> creates the empty Recent
  Projects menu (the methods it binds to the other menu commands are taken to exist), and
  the last statement assigns the empty list to \<open>recent_projects\<close>.
\<close>

definition new_converter :: "file_content option \<Rightarrow> converter" where
  "new_converter f =
     \<lparr>config_file = f, error_log = [], python_file = JStr [], output_dir = JStr [],
      recent_projects = None, recent_menu = []\<rparr>"

definition setup_gui :: "converter \<Rightarrow> converter" where
  "setup_gui s = s\<lparr>recent_menu := []\<rparr>"

definition init ::
  "path \<Rightarrow> bool \<Rightarrow> write_io \<Rightarrow> read_io \<Rightarrow> file_content option \<Rightarrow> converter \<times> exn option" where
  "init home mkdir_ok w r f =
     (case init_config home mkdir_ok w (new_converter f) of
        (s1, Some e) \<Rightarrow> (s1, Some e)
      | (s1, None) \<Rightarrow>
          (case load_saved_config r (setup_gui s1) of
             (s2, Some e) \<Rightarrow> (s2, Some e)
           | (s2, None) \<Rightarrow> (s2\<lparr>recent_projects := Some (JList [])\<rparr>, None)))"



section \<open>The build orchestrator\<close>

text \<open>
  \<open>create_menu\<close> binds the Build APK command to \<open>start_build_apk\<close>, and
  \<open>create_progress_indicators\<close> creates the progress bar and the log; the method, the
  worker that reads the subprocess and the completion handler are not in the source. They
  are modelled from sections 3, 4.2, 4.3 and 5 of the specification, as a machine that
  takes one event at a time on the form's own thread.
\<close>

text \<open>
  Modelled from the spec: the terminal status of a BuildRun,
  \<open>running|succeeded|failed|cancelled\<close>; the source has no BuildRun.
\<close>

datatype run_status = running | succeeded | failed | cancelled

text \<open>
  Modelled from the spec: a BuildRun with its accumulated log lines, its progress
  percentage and its status, and whether the user has asked to cancel it; the subprocess
  handle of the specification is left out. The source has no BuildRun.
\<close>

record BuildRun =
  log_lines :: "string list"
  progress :: nat
  status :: run_status
  cancel_requested :: bool

text \<open>
  Modelled from the spec: what the form shows the user, the validation message, the
  refusal of a second build, the success status and the failure message with the tail of
  the log; the source has none of the handlers that show them.
\<close>

datatype notice = ValidationMessage | BuildRejected | SuccessStatus | FailureMessage "string list"

text \<open>
  Modelled from the spec: the form and the orchestrator, which the source does not have.
  \<open>script_path\<close> and \<open>output_directory\<close> are the two fields of the form, \<open>files\<close> the
  paths that exist on disk, \<open>runs\<close> every BuildRun started so far, oldest first,
  \<open>last_output_dir\<close> the field of the UserConfig in memory, and \<open>saved\<close> the output
  directories persisted through the configuration store, one for each save.
\<close>

record orchestrator =
  script_path :: string
  output_directory :: string
  files :: "string list"
  runs :: "BuildRun list"
  trigger_enabled :: bool
  notices :: "notice list"
  last_output_dir :: string
  saved :: "string list"

text \<open>
  Modelled from the spec: the events the form's thread receives, which the source does not
  handle: the Build APK action, a line of output of the subprocess, its exit with an exit
  code, and the user's request to cancel.
\<close>

datatype event = BuildAPK | Line string | Exit int | Cancel

text \<open>Modelled from the spec: the idle application, with no BuildRun and the trigger enabled.\<close>

definition initial :: "string \<Rightarrow> string \<Rightarrow> string list \<Rightarrow> string \<Rightarrow> orchestrator" where
  "initial script out fs lod =
     \<lparr>script_path = script, output_directory = out, files = fs, runs = [],
      trigger_enabled = True, notices = [], last_output_dir = lod, saved = []\<rparr>"

text \<open>Modelled from the spec: a BuildRun is active while its status is \<open>running\<close>.\<close>

definition is_running :: "BuildRun \<Rightarrow> bool" where
  "is_running r = (status r = running)"

text \<open>Modelled from the spec: Start "validates no BuildRun is active".\<close>

definition active :: "orchestrator \<Rightarrow> bool" where
  "active s = (filter is_running (runs s) \<noteq> [])"

text \<open>Modelled from the spec: the BuildRun that Start creates, in state \<open>running\<close>.\<close>

definition new_run :: BuildRun where
  "new_run = \<lparr>log_lines = [], progress = 0, status = running, cancel_requested = False\<rparr>"

text \<open>Modelled from the spec: a marker matches a line when it is a substring of it.\<close>

fun contains :: "string \<Rightarrow> string \<Rightarrow> bool" where
  "contains m [] = (m = [])"
| "contains m (c # cs) = (prefix m (c # cs) \<or> contains m cs)"

text \<open>
  Modelled from the spec: the "ordered table of (substring, percentage) pairs" of the
  design notes; the first marker found in the line gives the percentage. The
  specification names markers and no percentages, so the table is a parameter.
\<close>

definition marker_progress :: "(string \<times> nat) list \<Rightarrow> string \<Rightarrow> nat option" where
  "marker_progress T l = map_option snd (find (\<lambda>(m, p). contains m l) T)"

text \<open>
  Modelled from the spec: Streaming appends the line to the log and maps its marker to a
  progress percentage, "monotonically non-decreasing".
\<close>

definition on_line :: "(string \<times> nat) list \<Rightarrow> string \<Rightarrow> BuildRun \<Rightarrow> BuildRun" where
  "on_line T l r =
     r\<lparr>log_lines := log_lines r @ [l],
       progress := (case marker_progress T l of None \<Rightarrow> progress r
                    | Some p \<Rightarrow> max (progress r) p)\<rparr>"

text \<open>
  Modelled from the spec: Completion. A run whose cancellation was requested ends
  \<open>cancelled\<close>, "never succeeded or failed"; otherwise exit code 0 ends it \<open>succeeded\<close>
  with progress 100 and every other exit code ends it \<open>failed\<close>.
\<close>

definition on_exit :: "int \<Rightarrow> BuildRun \<Rightarrow> BuildRun" where
  "on_exit c r =
     (if cancel_requested r then r\<lparr>status := cancelled\<rparr>
      else if c = 0 then r\<lparr>progress := 100, status := succeeded\<rparr>
      else r\<lparr>status := failed\<rparr>)"

text \<open>Modelled from the spec: an event of the subprocess changes the active BuildRun only.\<close>

definition update_active :: "(BuildRun \<Rightarrow> BuildRun) \<Rightarrow> BuildRun list \<Rightarrow> BuildRun list" where
  "update_active f rs = map (\<lambda>r. if is_running r then f r else r) rs"

text \<open>Modelled from the spec: the "last N log lines" of the failure message.\<close>

definition tail :: "nat \<Rightarrow> 'a list \<Rightarrow> 'a list" where
  "tail n ls = drop (length ls - n) ls"

text \<open>
  Modelled from the spec: one event. The Build APK action validates the form (section
  4.2), then Start refuses when a BuildRun is active and otherwise creates the run and
  disables the trigger (section 4.3). A line and a cancellation request reach the active
  run. The exit of the subprocess ends the active run, re-enables the trigger, and on
  success records the output directory in the UserConfig and saves it, on failure shows
  the last \<open>N\<close> lines of the log. The form fields do not change during a trace, so the
  BuildRequest is the form.
\<close>

fun step :: "(string \<times> nat) list \<Rightarrow> nat \<Rightarrow> orchestrator \<Rightarrow> event \<Rightarrow> orchestrator" where
  "step T N s BuildAPK =
     (if script_path s = [] \<or> output_directory s = [] \<or> script_path s \<notin> set (files s)
      then s\<lparr>notices := notices s @ [ValidationMessage]\<rparr>
      else if active s then s\<lparr>notices := notices s @ [BuildRejected]\<rparr>
      else s\<lparr>runs := runs s @ [new_run], trigger_enabled := False\<rparr>)"
| "step T N s (Line l) = s\<lparr>runs := update_active (on_line T l) (runs s)\<rparr>"
| "step T N s Cancel = s\<lparr>runs := update_active (\<lambda>r. r\<lparr>cancel_requested := True\<rparr>) (runs s)\<rparr>"
| "step T N s (Exit c) =
     (case find is_running (runs s) of
        None \<Rightarrow> s
      | Some r \<Rightarrow>
          (let s1 = s\<lparr>runs := update_active (on_exit c) (runs s), trigger_enabled := True\<rparr>
           in if cancel_requested r then s1
              else if c = 0
              then s1\<lparr>notices := notices s @ [SuccessStatus],
                      last_output_dir := output_directory s,
                      saved := saved s @ [output_directory s]\<rparr>
              else s1\<lparr>notices := notices s @ [FailureMessage (tail N (log_lines r))]\<rparr>))"

text \<open>Modelled from the spec: the events of a trace, one after the other.\<close>

definition exec :: "(string \<times> nat) list \<Rightarrow> nat \<Rightarrow> orchestrator \<Rightarrow> event list \<Rightarrow> orchestrator" where
  "exec T N s es = foldl (step T N) s es"

text \<open>Modelled from the spec: the table maps markers to percentages, none above 100.\<close>

definition percentages :: "(string \<times> nat) list \<Rightarrow> bool" where
  "percentages T = list_all (\<lambda>(m, p). p \<le> 100) T"

section \<open>Example data\<close>

text \<open>The home directory \<open>/home/u\<close>.\<close>

definition example_home :: path where
  "example_home = \<lparr>sep = ''/'', anchor = ''/'', components = [''home'', ''u'']\<rparr>"

definition example_project :: "string \<Rightarrow> json" where
  "example_project n = JDict [(''name'', JStr n), (''path'', JStr (''/projects/'' @ n))]"

definition example_projects :: "json list" where
  "example_projects =
     map example_project [''a'', ''b'', ''c'', ''d'', ''e'', ''f'', ''g'']"

definition example_file :: "file_content option" where
  "example_file =
     Some (Json (UserConfig (JStr ''/home/u'') (JStr ''/home/u/out'') (JList example_projects)))"

text \<open>The four markers the specification names, with percentages chosen for the examples.\<close>

definition example_markers :: "(string \<times> nat) list" where
  "example_markers =
     [(''Downloading'', 25), (''Compiling'', 50), (''Packaging'', 75), (''Done'', 100)]"

definition example_form :: orchestrator where
  "example_form = initial ''/home/u/app.py'' ''/home/u/out'' [''/home/u/app.py''] ''/home/u''"

section \<open>The Recent Projects menu\<close>

lemma length_last5: "length (last5 xs) \<le> 5"
  by (simp add: last5_def)

lemma add_commands_projects:
  "\<exists>k. map project (fst (add_commands ps m)) = map project m @ take k ps"
proof (induction ps arbitrary: m)
  case Nil
  show ?case by simp
next
  case (Cons p ps)
  show ?case
  proof (cases "getitem p ''name''")
    case (Inl e)
    have "map project (fst (add_commands (p # ps) m)) = map project m @ take 0 (p # ps)"
      using Inl by simp
    then show ?thesis by blast
  next
    case (Inr l)
    from Cons.IH [of "m @ [\<lparr>label = l, project = p\<rparr>]"]
    obtain k where
      "map project (fst (add_commands ps (m @ [\<lparr>label = l, project = p\<rparr>])))
         = map project (m @ [\<lparr>label = l, project = p\<rparr>]) @ take k ps"
      by blast
    then have "map project (fst (add_commands (p # ps) m)) = map project m @ take (Suc k) (p # ps)"
      using Inr by simp
    then show ?thesis by blast
  qed
qed

lemma add_commands_labels:
  "\<forall>c \<in> set m. getitem (project c) ''name'' = Inr (label c) \<Longrightarrow>
   \<forall>c \<in> set (fst (add_commands ps m)). getitem (project c) ''name'' = Inr (label c)"
proof (induction ps arbitrary: m)
  case Nil
  then show ?case by simp
next
  case (Cons p ps)
  show ?case
  proof (cases "getitem p ''name''")
    case (Inl e)
    then show ?thesis using Cons.prems by simp
  next
    case (Inr l)
    have "\<forall>c \<in> set (m @ [\<lparr>label = l, project = p\<rparr>]). getitem (project c) ''name'' = Inr (label c)"
      using Cons.prems Inr by simp
    from Cons.IH [OF this] show ?thesis using Inr by simp
  qed
qed

lemma add_commands_named:
  "\<forall>p \<in> set ps. \<exists>v. getitem p ''name'' = Inr v \<Longrightarrow>
   map project (fst (add_commands ps m)) = map project m @ ps \<and> snd (add_commands ps m) = None"
  by (induction ps arbitrary: m) (auto split: sum.splits)

lemma menu_of_slice:
  "recent_projects s = Some rp \<Longrightarrow> slice_last5 rp = Inr ps \<Longrightarrow>
   update_recent_projects_menu s =
     (s\<lparr>recent_menu := fst (add_commands ps [])\<rparr>, snd (add_commands ps []))"
  by (simp add: update_recent_projects_menu_def split: prod.splits)

lemma menu_of_list:
  "recent_projects s = Some (JList ps) \<Longrightarrow>
   update_recent_projects_menu s =
     (s\<lparr>recent_menu := fst (add_commands (last5 ps) [])\<rparr>, snd (add_commands (last5 ps) []))"
  by (simp add: menu_of_slice)

lemma menu_length: "length (recent_menu (fst (update_recent_projects_menu s))) \<le> 5"
proof (cases "recent_projects s")
  case None
  then show ?thesis by (simp add: update_recent_projects_menu_def)
next
  case (Some rp)
  show ?thesis
  proof (cases "slice_last5 rp")
    case (Inl e)
    then show ?thesis using Some by (simp add: update_recent_projects_menu_def)
  next
    case (Inr ps)
    have len: "length ps \<le> 5"
      using Inr by (cases rp) (auto simp: length_last5)
    obtain k where "map project (fst (add_commands ps [])) = take k ps"
      using add_commands_projects [of ps "[]"] by auto
    then have "length (map project (fst (add_commands ps []))) \<le> 5"
      using len by simp
    then show ?thesis
      by (simp add: menu_of_slice [OF Some Inr])
  qed
qed

text \<open>
  C3. Whatever \<open>recent_projects\<close> holds, the menu rebuilt by
  \<open>update_recent_projects_menu\<close> has at most five commands. When \<open>recent_projects\<close> is a
  list, the commands are taken in order from its last five elements, each labelled with
  the name of its project, and when each of these five has a name the menu holds exactly
  the last five.
\<close>

theorem recent_menu_at_most_5:
  "length (recent_menu (fst (update_recent_projects_menu s))) \<le> 5 \<and>
   (\<forall>ps. recent_projects s = Some (JList ps) \<longrightarrow>
      prefix (map project (recent_menu (fst (update_recent_projects_menu s)))) (last5 ps) \<and>
      (\<forall>c \<in> set (recent_menu (fst (update_recent_projects_menu s))).
         getitem (project c) ''name'' = Inr (label c)) \<and>
      ((\<forall>p \<in> set (last5 ps). \<exists>v. getitem p ''name'' = Inr v) \<longrightarrow>
         map project (recent_menu (fst (update_recent_projects_menu s))) = last5 ps \<and>
         snd (update_recent_projects_menu s) = None))"
proof (intro conjI allI impI)
  show "length (recent_menu (fst (update_recent_projects_menu s))) \<le> 5"
    by (rule menu_length)
next
  fix ps assume rp: "recent_projects s = Some (JList ps)"
  obtain k where "map project (fst (add_commands (last5 ps) [])) = take k (last5 ps)"
    using add_commands_projects [of "last5 ps" "[]"] by auto
  then show "prefix (map project (recent_menu (fst (update_recent_projects_menu s)))) (last5 ps)"
    by (simp add: menu_of_list [OF rp] take_is_prefix)
next
  fix ps assume rp: "recent_projects s = Some (JList ps)"
  show "\<forall>c \<in> set (recent_menu (fst (update_recent_projects_menu s))).
         getitem (project c) ''name'' = Inr (label c)"
    using add_commands_labels [of "[]" "last5 ps"] by (simp add: menu_of_list [OF rp])
next
  fix ps assume rp: "recent_projects s = Some (JList ps)"
    and named: "\<forall>p \<in> set (last5 ps). \<exists>v. getitem p ''name'' = Inr v"
  show "map project (recent_menu (fst (update_recent_projects_menu s))) = last5 ps"
    using add_commands_named [OF named, of "[]"] by (simp add: menu_of_list [OF rp])
next
  fix ps assume rp: "recent_projects s = Some (JList ps)"
    and named: "\<forall>p \<in> set (last5 ps). \<exists>v. getitem p ''name'' = Inr v"
  show "snd (update_recent_projects_menu s) = None"
    using add_commands_named [OF named, of "[]"] by (simp add: menu_of_list [OF rp])
qed

theorem recent_menu_at_most_5_witness:
  "length (recent_menu (fst (update_recent_projects_menu
      ((new_converter None)\<lparr>recent_projects := Some (JList example_projects)\<rparr>)))) \<le> 5 \<and>
   map project (recent_menu (fst (update_recent_projects_menu
      ((new_converter None)\<lparr>recent_projects := Some (JList example_projects)\<rparr>)))) =
     map example_project [''c'', ''d'', ''e'', ''f'', ''g''] \<and>
   snd (update_recent_projects_menu
      ((new_converter None)\<lparr>recent_projects := Some (JList example_projects)\<rparr>)) = None"
proof -
  let ?s = "(new_converter None)\<lparr>recent_projects := Some (JList example_projects)\<rparr>"
  have l5: "last5 example_projects = map example_project [''c'', ''d'', ''e'', ''f'', ''g'']"
    by (simp add: last5_def example_projects_def)
  have rp: "recent_projects ?s = Some (JList example_projects)"
    by simp
  have named: "\<forall>p \<in> set (last5 example_projects). \<exists>v. getitem p ''name'' = Inr v"
    by (simp add: l5 example_project_def)
  from recent_menu_at_most_5 [of ?s] rp named show ?thesis
    by (simp add: l5)
qed

section \<open>Loading and saving\<close>

lemma update_menu_frame:
  "python_file (fst (update_recent_projects_menu s)) = python_file s"
  "output_dir (fst (update_recent_projects_menu s)) = output_dir s"
  "recent_projects (fst (update_recent_projects_menu s)) = recent_projects s"
  "config_file (fst (update_recent_projects_menu s)) = config_file s"
  "error_log (fst (update_recent_projects_menu s)) = error_log s"
  by (simp_all add: update_recent_projects_menu_def Let_def
      split: option.splits sum.splits prod.splits)

lemma load_body_frame:
  "python_file (fst (load_body r s)) = python_file s"
  "config_file (fst (load_body r s)) = config_file s"
  "error_log (fst (load_body r s)) = error_log s"
  by (simp_all add: load_body_def update_menu_frame Let_def
      split: option.splits file_content.splits json.splits)

lemma load_saved_config_unfold:
  "load_saved_config r s =
     (case snd (load_body r s) of
        None \<Rightarrow> fst (load_body r s)
      | Some e \<Rightarrow> (fst (load_body r s))\<lparr>error_log := error_log s @ [FailedToLoad e]\<rparr>, None)"
  using load_body_frame(3) [of r s]
  by (cases "load_body r s") (simp add: load_saved_config_def split: option.splits)

lemma load_body_UserConfig:
  "load_body ReadOk (s\<lparr>config_file := Some (Json (UserConfig pd od rp))\<rparr>) =
     update_recent_projects_menu
       (s\<lparr>config_file := Some (Json (UserConfig pd od rp)), output_dir := od,
          recent_projects := Some rp\<rparr>)"
  by (simp add: load_body_def UserConfig_def dict_get_def)
lemma save_config_ok:
  "save_config WriteOk config s = (s\<lparr>config_file := Some (Json config)\<rparr>, None)"
  by (simp add: save_config_def)
lemma init_config_absent:
  "init_config home True WriteOk (s\<lparr>config_file := None\<rparr>) =
     (s\<lparr>config_file := Some (Json (default_config home))\<rparr>, None)"
  by (simp add: init_config_def save_config_ok)

lemma menu_empty_list:
  "recent_projects s = Some (JList []) \<Longrightarrow>
   update_recent_projects_menu s = (s\<lparr>recent_menu := []\<rparr>, None)"
  by (simp add: menu_of_list last5_def)

lemma load_defaults:
  "load_saved_config ReadOk (s\<lparr>config_file := Some (Json (default_config home))\<rparr>) =
     (s\<lparr>config_file := Some (Json (default_config home)),
        output_dir := JStr (path_str (truediv home ''APK_Output'')),
        recent_projects := Some (JList []), recent_menu := []\<rparr>, None)"
  unfolding default_config_def load_saved_config_unfold load_body_UserConfig
  by (simp add: menu_empty_list)

lemma first_init:
  "init home True WriteOk ReadOk None =
     (\<lparr>config_file = Some (Json (default_config home)), error_log = [],
       python_file = JStr [], output_dir = JStr (path_str (truediv home ''APK_Output'')),
       recent_projects = Some (JList []), recent_menu = []\<rparr>, None)"
  by (simp add: init_def init_config_def save_config_def new_converter_def setup_gui_def
      load_saved_config_def load_body_def default_config_def UserConfig_def dict_get_def
      update_recent_projects_menu_def last5_def Let_def)

lemma second_init:
  "init home True w ReadOk (Some (Json (default_config home))) =
     (\<lparr>config_file = Some (Json (default_config home)), error_log = [],
       python_file = JStr [], output_dir = JStr (path_str (truediv home ''APK_Output'')),
       recent_projects = Some (JList []), recent_menu = []\<rparr>, None)"
  by (simp add: init_def init_config_def new_converter_def setup_gui_def
      load_saved_config_def load_body_def default_config_def UserConfig_def dict_get_def
      update_recent_projects_menu_def last5_def Let_def)
lemma init_unfold:
  "init home True w r f =
     ((fst (load_saved_config r (setup_gui (fst (init_config home True w (new_converter f))))))
        \<lparr>recent_projects := Some (JList [])\<rparr>, None)"
proof -
  have "snd (init_config home True w (new_converter f)) = None"
    by (simp add: init_config_def save_config_def split: prod.splits option.splits)
  then obtain s1 where s1: "init_config home True w (new_converter f) = (s1, None)"
    by (metis prod.collapse)
  have "snd (load_saved_config r (setup_gui s1)) = None"
    by (simp add: load_saved_config_unfold)
  then obtain s2 where s2: "load_saved_config r (setup_gui s1) = (s2, None)"
    by (metis prod.collapse)
  show ?thesis
    by (simp add: init_def s1 s2)
qed

lemma init_raises: "init home False w r f = (new_converter f, Some OSError)"
  by (simp add: init_def init_config_def)

text \<open>
  The paths \<open>pathlib\<close> gives below a relative home, the root, a double-slash root and a
  Windows home.
\<close>

lemma path_str_examples:
  "path_str (truediv \<lparr>sep = ''/'', anchor = [], components = []\<rparr> ''APK_Output'') =
     ''APK_Output''"
  "path_str \<lparr>sep = ''/'', anchor = [], components = []\<rparr> = ''.''"
  "path_str (truediv \<lparr>sep = ''/'', anchor = ''/'', components = []\<rparr> ''APK_Output'') =
     ''/APK_Output''"
  "path_str (truediv \<lparr>sep = ''/'', anchor = ''//'', components = []\<rparr> ''APK_Output'') =
     ''//APK_Output''"
  "path_str (truediv \<lparr>sep = [CHR 0x5C], anchor = ''C:'' @ [CHR 0x5C],
       components = [''Users'', ''u'']\<rparr> ''APK_Output'') =
     ''C:'' @ [CHR 0x5C] @ ''Users'' @ [CHR 0x5C] @ ''u'' @ [CHR 0x5C] @ ''APK_Output''"
  by (simp_all add: path_str_def truediv_def)

lemma first_init_unread:
  "init home True WriteOk OpenReadFails None =
     (\<lparr>config_file = Some (Json (default_config home)),
       error_log = [FailedToLoad OSError], python_file = JStr [], output_dir = JStr [],
       recent_projects = Some (JList []), recent_menu = []\<rparr>, None)"
  by (simp add: init_def init_config_def save_config_def new_converter_def setup_gui_def
      load_saved_config_def load_body_def)

lemma second_init_unread:
  "init home True w OpenReadFails (Some (Json (default_config home))) =
     (\<lparr>config_file = Some (Json (default_config home)),
       error_log = [FailedToLoad OSError], python_file = JStr [], output_dir = JStr [],
       recent_projects = Some (JList []), recent_menu = []\<rparr>, None)"
  by (simp add: init_def init_config_def new_converter_def setup_gui_def
      load_saved_config_def load_body_def)

lemma first_init_file:
  "config_file (fst (init home True WriteOk r None)) = Some (Json (default_config home))"
  by (cases r) (simp_all add: first_init first_init_unread)

lemma second_init_same:
  "init home True w r (Some (Json (default_config home))) = init home True WriteOk r None"
  by (cases r) (simp_all add: first_init second_init first_init_unread second_init_unread)

text \<open>
  C1, as the code has it. On a launch that finds no configuration file and can write
  it, \<open>init_config\<close> creates the file before \<open>load_saved_config\<close> reads it, with the
  defaults of the code: the home directory as \<open>last_python_dir\<close>, the path
  \<open>APK_Output\<close> under the home directory as \<open>last_output_dir\<close>, and an empty list of
  recent projects; this holds whatever the read does. A second launch leaves the file
  with the same content whatever its own write and read do, and gives the same object as
  the first when the read does what it did the first time; a load that succeeds, done
  twice, gives what it gives done once.
\<close>

theorem first_launch_defaults:
  "default_config home =
     UserConfig (JStr (path_str home)) (JStr (path_str (truediv home ''APK_Output'')))
       (JList []) \<and>
   init_config home True WriteOk (s\<lparr>config_file := None\<rparr>) =
     (s\<lparr>config_file := Some (Json (default_config home))\<rparr>, None) \<and>
   config_file (fst (init home True WriteOk r None)) = Some (Json (default_config home)) \<and>
   init home True WriteOk ReadOk None =
     (\<lparr>config_file = Some (Json (default_config home)), error_log = [],
       python_file = JStr [], output_dir = JStr (path_str (truediv home ''APK_Output'')),
       recent_projects = Some (JList []), recent_menu = []\<rparr>, None) \<and>
   init home True w r (config_file (fst (init home True WriteOk r None))) =
     init home True WriteOk r None \<and>
   config_file (fst (init home True w r' (config_file (fst (init home True WriteOk r None))))) =
     config_file (fst (init home True WriteOk r None)) \<and>
   load_saved_config ReadOk
     (fst (load_saved_config ReadOk (fst (init_config home True WriteOk (s\<lparr>config_file := None\<rparr>))))) =
     load_saved_config ReadOk (fst (init_config home True WriteOk (s\<lparr>config_file := None\<rparr>)))"
proof (intro conjI)
  show "default_config home =
     UserConfig (JStr (path_str home)) (JStr (path_str (truediv home ''APK_Output'')))
       (JList [])"
    by (simp add: default_config_def)
  show "init_config home True WriteOk (s\<lparr>config_file := None\<rparr>) =
     (s\<lparr>config_file := Some (Json (default_config home))\<rparr>, None)"
    by (rule init_config_absent)
  show "config_file (fst (init home True WriteOk r None)) = Some (Json (default_config home))"
    by (rule first_init_file)
  show "init home True WriteOk ReadOk None =
     (\<lparr>config_file = Some (Json (default_config home)), error_log = [],
       python_file = JStr [], output_dir = JStr (path_str (truediv home ''APK_Output'')),
       recent_projects = Some (JList []), recent_menu = []\<rparr>, None)"
    by (rule first_init)
  show "init home True w r (config_file (fst (init home True WriteOk r None))) =
     init home True WriteOk r None"
    by (simp add: first_init_file second_init_same)
  have "config_file (fst (init home True w r' (Some (Json (default_config home))))) =
          Some (Json (default_config home))"
    by (simp add: second_init_same first_init_file)
  then show "config_file (fst (init home True w r' (config_file (fst (init home True WriteOk r None))))) =
     config_file (fst (init home True WriteOk r None))"
    by (simp add: first_init_file)
  have "load_saved_config ReadOk
          (s\<lparr>config_file := Some (Json (default_config home)),
             output_dir := JStr (path_str (truediv home ''APK_Output'')),
             recent_projects := Some (JList []), recent_menu := []\<rparr>) =
        (s\<lparr>config_file := Some (Json (default_config home)),
           output_dir := JStr (path_str (truediv home ''APK_Output'')),
           recent_projects := Some (JList []), recent_menu := []\<rparr>, None)"
    by (simp add: load_saved_config_def load_body_def default_config_def UserConfig_def
        dict_get_def update_recent_projects_menu_def last5_def Let_def)
  then show "load_saved_config ReadOk
     (fst (load_saved_config ReadOk (fst (init_config home True WriteOk (s\<lparr>config_file := None\<rparr>))))) =
     load_saved_config ReadOk (fst (init_config home True WriteOk (s\<lparr>config_file := None\<rparr>)))"
    by (simp add: init_config_absent load_defaults)
qed

text \<open>
  C1 as stated fails: for the home directory \<open>/home/u\<close> the \<open>last_output_dir\<close> written
  on a first launch is \<open>/home/u/APK_Output\<close>, not the home directory.
\<close>

theorem first_launch_defaults_counterexample:
  "path_str example_home = ''/home/u'' \<and>
   config_file (fst (init example_home True WriteOk ReadOk None)) =
     Some (Json (UserConfig (JStr ''/home/u'') (JStr ''/home/u/APK_Output'') (JList []))) \<and>
   config_file (fst (init example_home True WriteOk ReadOk None)) \<noteq>
     Some (Json (UserConfig (JStr ''/home/u'') (JStr ''/home/u'') (JList []))) \<and>
   output_dir (fst (init example_home True WriteOk ReadOk None)) \<noteq> JStr ''/home/u''"
  by (simp add: first_init default_config_def UserConfig_def path_str_def truediv_def
      example_home_def)

text \<open>
  C2, as the code has it. When the write and the read succeed, \<open>save_config\<close> followed by
  \<open>load_saved_config\<close> leaves the file holding the saved document, with
  \<open>last_output_dir\<close> in the output directory field and \<open>recent_projects\<close> in the
  attribute of that name; the Python file field keeps what it held.
\<close>

theorem save_load_roundtrip:
  "snd (save_config WriteOk (UserConfig pd od rp) s) = None \<and>
   snd (load_saved_config ReadOk (fst (save_config WriteOk (UserConfig pd od rp) s))) = None \<and>
   config_file (fst (load_saved_config ReadOk (fst (save_config WriteOk (UserConfig pd od rp) s))))
     = Some (Json (UserConfig pd od rp)) \<and>
   output_dir (fst (load_saved_config ReadOk (fst (save_config WriteOk (UserConfig pd od rp) s)))) = od \<and>
   recent_projects (fst (load_saved_config ReadOk (fst (save_config WriteOk (UserConfig pd od rp) s))))
     = Some rp \<and>
   python_file (fst (load_saved_config ReadOk (fst (save_config WriteOk (UserConfig pd od rp) s))))
     = python_file s"
  unfolding save_config_ok fst_conv snd_conv load_saved_config_unfold load_body_UserConfig
  by (simp add: update_menu_frame split: option.splits)

text \<open>
  C2 as stated fails: two configurations that differ in \<open>last_python_dir\<close> only load into
  the same form, and the saved \<open>last_python_dir\<close> is not in the Python file field.
\<close>

theorem save_load_roundtrip_counterexample:
  "form (fst (load_saved_config ReadOk (fst (save_config WriteOk
       (UserConfig (JStr ''/home/u/src'') (JStr ''/home/u/out'') (JList [])) (new_converter None))))) =
   form (fst (load_saved_config ReadOk (fst (save_config WriteOk
       (UserConfig (JStr ''/tmp'') (JStr ''/home/u/out'') (JList [])) (new_converter None))))) \<and>
   python_file (fst (load_saved_config ReadOk (fst (save_config WriteOk
       (UserConfig (JStr ''/home/u/src'') (JStr ''/home/u/out'') (JList [])) (new_converter None)))))
     \<noteq> JStr ''/home/u/src''"
  by (simp add: save_config_ok load_saved_config_unfold load_body_def UserConfig_def dict_get_def
      update_recent_projects_menu_def new_converter_def form_def last5_def Let_def)

text \<open>
  C4. When \<open>__init__\<close> returns, \<open>recent_projects\<close> is the empty list whatever the file
  holds, so a menu rebuilt from then on is empty; the menu on screen is the one that
  \<open>load_saved_config\<close> built from the persisted list before the reassignment.
\<close>

theorem init_resets_recent_projects:
  assumes "init home mkdir_ok w r f = (s, None)"
  shows "recent_projects s = Some (JList []) \<and>
         recent_menu (fst (update_recent_projects_menu s)) = [] \<and>
         (\<forall>d ps. r = ReadOk \<and> f = Some (Json (JDict d)) \<and>
                  map_of d ''recent_projects'' = Some (JList ps) \<longrightarrow>
                  recent_menu s = fst (add_commands (last5 ps) []))"
proof -
  have ok: "mkdir_ok"
    using assms by (cases mkdir_ok) (simp_all add: init_raises)
  have s: "s = (fst (load_saved_config r (setup_gui (fst (init_config home True w (new_converter f))))))
                 \<lparr>recent_projects := Some (JList [])\<rparr>"
    using assms ok by (simp add: init_unfold)
  have rp: "recent_projects s = Some (JList [])"
    by (subst s) simp
  have "\<forall>d ps. r = ReadOk \<and> f = Some (Json (JDict d)) \<and>
                  map_of d ''recent_projects'' = Some (JList ps) \<longrightarrow>
                  recent_menu s = fst (add_commands (last5 ps) [])"
  proof (intro allI impI)
    fix d ps
    assume h: "r = ReadOk \<and> f = Some (Json (JDict d)) \<and>
               map_of d ''recent_projects'' = Some (JList ps)"
    then have r: "r = ReadOk" and f: "f = Some (Json (JDict d))"
      and m: "map_of d ''recent_projects'' = Some (JList ps)"
      by simp_all
    have a: "fst (init_config home True w (new_converter f)) = new_converter f"
      by (simp add: f init_config_def new_converter_def)
    have b: "load_body ReadOk (setup_gui (new_converter f)) =
               update_recent_projects_menu
                 ((new_converter f)\<lparr>output_dir := dict_get d ''last_output_dir'' (JStr []),
                                     recent_projects := Some (JList ps)\<rparr>)"
      by (simp add: f m load_body_def setup_gui_def new_converter_def dict_get_def)
    have "recent_menu (fst (load_body ReadOk (setup_gui (new_converter f)))) =
            fst (add_commands (last5 ps) [])"
      unfolding b by (simp add: menu_of_list)
    then show "recent_menu s = fst (add_commands (last5 ps) [])"
      unfolding s a r
      by (simp add: load_saved_config_unfold split: option.splits)
  qed
  with rp show ?thesis
    by (simp add: menu_empty_list)
qed

theorem init_resets_recent_projects_witness:
  "recent_projects (fst (init example_home True WriteOk ReadOk example_file)) = Some (JList []) \<and>
   map label (recent_menu (fst (init example_home True WriteOk ReadOk example_file))) =
     map JStr [''c'', ''d'', ''e'', ''f'', ''g''] \<and>
   recent_menu (fst (update_recent_projects_menu
     (fst (init example_home True WriteOk ReadOk example_file)))) = []"
proof -
  let ?s = "fst (init example_home True WriteOk ReadOk example_file)"
  have ret: "init example_home True WriteOk ReadOk example_file = (?s, None)"
    by (simp add: init_unfold)
  have f: "example_file = Some (Json (JDict
      [(''last_python_dir'', JStr ''/home/u''), (''last_output_dir'', JStr ''/home/u/out''),
       (''recent_projects'', JList example_projects)]))"
    by (simp add: example_file_def UserConfig_def)
  have m: "map_of [(''last_python_dir'', JStr ''/home/u''), (''last_output_dir'', JStr ''/home/u/out''),
       (''recent_projects'', JList example_projects)] ''recent_projects'' = Some (JList example_projects)"
    by simp
  have menu: "map label (fst (add_commands (last5 example_projects) [])) =
      map JStr [''c'', ''d'', ''e'', ''f'', ''g'']"
    by (simp add: last5_def example_projects_def example_project_def)
  note c = init_resets_recent_projects [OF ret]
  from c have "\<forall>d ps. ReadOk = ReadOk \<and> example_file = Some (Json (JDict d)) \<and>
                  map_of d ''recent_projects'' = Some (JList ps) \<longrightarrow>
                  recent_menu ?s = fst (add_commands (last5 ps) [])"
    by (elim conjE)
  with f m have "recent_menu ?s = fst (add_commands (last5 example_projects) [])"
    by blast
  with c menu show ?thesis
    by simp
qed

text \<open>
  C6. \<open>load_saved_config\<close> leaves the Python file field as it was, and what it makes of the
  form does not depend on the \<open>last_python_dir\<close> of the file: the output directory and
  the recent projects are the two values it restores.
\<close>

theorem load_leaves_python_file:
  "python_file (fst (load_saved_config r s)) = python_file s \<and>
   form (fst (load_saved_config r (s\<lparr>config_file := Some (Json (UserConfig pd od rp))\<rparr>))) =
   form (fst (load_saved_config r (s\<lparr>config_file := Some (Json (UserConfig pd' od rp))\<rparr>))) \<and>
   output_dir (fst (load_saved_config ReadOk (s\<lparr>config_file := Some (Json (UserConfig pd od rp))\<rparr>))) = od \<and>
   recent_projects (fst (load_saved_config ReadOk (s\<lparr>config_file := Some (Json (UserConfig pd od rp))\<rparr>))) = Some rp"
proof (intro conjI)
  show "python_file (fst (load_saved_config r s)) = python_file s"
    by (simp add: load_saved_config_unfold load_body_frame split: option.splits)
next
  show "form (fst (load_saved_config r (s\<lparr>config_file := Some (Json (UserConfig pd od rp))\<rparr>))) =
        form (fst (load_saved_config r (s\<lparr>config_file := Some (Json (UserConfig pd' od rp))\<rparr>)))"
  proof (cases r)
    case ReadOk
    show ?thesis
      unfolding ReadOk load_saved_config_unfold load_body_UserConfig
      by (simp add: form_def update_menu_frame update_recent_projects_menu_def Let_def
          split: option.splits sum.splits prod.splits)
  next
    case OpenReadFails
    then show ?thesis
      by (simp add: load_saved_config_unfold load_body_def form_def)
  qed
next
  show "output_dir (fst (load_saved_config ReadOk (s\<lparr>config_file := Some (Json (UserConfig pd od rp))\<rparr>))) = od"
    unfolding load_saved_config_unfold load_body_UserConfig
    by (simp add: update_menu_frame split: option.splits)
next
  show "recent_projects (fst (load_saved_config ReadOk (s\<lparr>config_file := Some (Json (UserConfig pd od rp))\<rparr>))) = Some rp"
    unfolding load_saved_config_unfold load_body_UserConfig
    by (simp add: update_menu_frame split: option.splits)
qed

lemma save_config_unfold:
  "save_config w config s =
     (case w of
        WriteOk \<Rightarrow> (s\<lparr>config_file := Some (Json config)\<rparr>, None)
      | OpenWriteFails \<Rightarrow> (s\<lparr>error_log := error_log s @ [FailedToSave OSError]\<rparr>, None)
      | DumpFails \<Rightarrow>
          (s\<lparr>config_file := Some Garbage,
             error_log := error_log s @ [FailedToSave OSError]\<rparr>, None))"
  by (cases w) (simp_all add: save_config_def)

lemma load_io_error:
  assumes "r = OpenReadFails \<or> config_file s = None \<or> config_file s = Some Garbage"
  shows "load_saved_config r s =
           (s\<lparr>error_log := error_log s @
               [FailedToLoad (if r = OpenReadFails \<or> config_file s = None then OSError
                              else JSONDecodeError)]\<rparr>, None)"
  using assms by (auto simp: load_saved_config_def load_body_def)

lemma init_io_error:
  assumes "r = OpenReadFails \<or> f = Some Garbage \<or> (f = None \<and> w \<noteq> WriteOk)"
  shows "form (fst (init home True w r f)) = (JStr [], JStr [], Some (JList []), [])"
proof -
  let ?s = "setup_gui (fst (init_config home True w (new_converter f)))"
  have pre: "python_file ?s = JStr []" "output_dir ?s = JStr []" "recent_menu ?s = []"
    by (simp_all add: setup_gui_def init_config_def save_config_unfold new_converter_def
        split: write_io.splits)
  have "r = OpenReadFails \<or> config_file ?s = None \<or> config_file ?s = Some Garbage"
    using assms
    by (cases w)
       (auto simp: setup_gui_def init_config_def save_config_unfold new_converter_def)
  from load_io_error [OF this] show ?thesis
    by (simp add: init_unfold form_def pre)
qed

lemma init_empty_dict:
  "form (fst (init home True w ReadOk (Some (Json (JDict []))))) =
     (JStr [], JStr [], Some (JList []), [])"
  by (simp add: init_def init_config_def new_converter_def setup_gui_def
      load_saved_config_def load_body_def dict_get_def update_recent_projects_menu_def
      last5_def Let_def form_def)

text \<open>
  C5, as the code has it. Neither \<open>load_saved_config\<close> nor \<open>save_config\<close> lets an
  exception out. When the file cannot be opened, does not exist or does not parse, the
  load logs the error and leaves the object as it was, so that the launch ends with the
  default-valued form: the empty output directory and the empty list of recent projects
  that the load itself falls back on for a file without keys. A save that fails logs the
  error and changes nothing in the form; it leaves the file as it was when the file could
  not be opened, and leaves a file that does not parse when the failure came after the
  file was opened for writing.
\<close>

theorem config_errors_fail_soft:
  "snd (load_saved_config r s) = None \<and>
   snd (save_config w config s) = None \<and>
   (r = OpenReadFails \<or> config_file s = None \<or> config_file s = Some Garbage \<longrightarrow>
      load_saved_config r s =
        (s\<lparr>error_log := error_log s @
            [FailedToLoad (if r = OpenReadFails \<or> config_file s = None then OSError
                           else JSONDecodeError)]\<rparr>, None)) \<and>
   (r = OpenReadFails \<or> f = Some Garbage \<or> (f = None \<and> w \<noteq> WriteOk) \<longrightarrow>
      form (fst (init home True w r f)) = (JStr [], JStr [], Some (JList []), [])) \<and>
   form (fst (init home True w ReadOk (Some (Json (JDict []))))) =
     (JStr [], JStr [], Some (JList []), []) \<and>
   (w \<noteq> WriteOk \<longrightarrow>
      error_log (fst (save_config w config s)) = error_log s @ [FailedToSave OSError] \<and>
      form (fst (save_config w config s)) = form s \<and>
      config_file (fst (save_config w config s)) =
        (if w = DumpFails then Some Garbage else config_file s))"
proof (intro conjI impI)
  show "snd (load_saved_config r s) = None"
    by (simp add: load_saved_config_unfold)
  show "snd (save_config w config s) = None"
    by (simp add: save_config_unfold split: write_io.splits)
  show "form (fst (init home True w ReadOk (Some (Json (JDict []))))) =
     (JStr [], JStr [], Some (JList []), [])"
    by (rule init_empty_dict)
next
  assume "r = OpenReadFails \<or> config_file s = None \<or> config_file s = Some Garbage"
  then show "load_saved_config r s =
        (s\<lparr>error_log := error_log s @
            [FailedToLoad (if r = OpenReadFails \<or> config_file s = None then OSError
                           else JSONDecodeError)]\<rparr>, None)"
    by (rule load_io_error)
next
  assume "r = OpenReadFails \<or> f = Some Garbage \<or> (f = None \<and> w \<noteq> WriteOk)"
  then show "form (fst (init home True w r f)) = (JStr [], JStr [], Some (JList []), [])"
    by (rule init_io_error)
next
  assume w: "w \<noteq> WriteOk"
  show "error_log (fst (save_config w config s)) = error_log s @ [FailedToSave OSError]"
    using w by (cases w) (simp_all add: save_config_def)
  show "form (fst (save_config w config s)) = form s"
    using w by (cases w) (simp_all add: save_config_def form_def)
  show "config_file (fst (save_config w config s)) =
        (if w = DumpFails then Some Garbage else config_file s)"
    using w by (cases w) (simp_all add: save_config_def)
qed

theorem config_errors_fail_soft_witness:
  "load_saved_config ReadOk (new_converter (Some Garbage)) =
     ((new_converter (Some Garbage))\<lparr>error_log := [FailedToLoad JSONDecodeError]\<rparr>, None) \<and>
   form (fst (init example_home True OpenWriteFails ReadOk (Some Garbage))) =
     (JStr [], JStr [], Some (JList []), []) \<and>
   error_log (fst (save_config OpenWriteFails (default_config example_home)
     (new_converter (Some Garbage)))) = [FailedToSave OSError] \<and>
   config_file (fst (save_config OpenWriteFails (default_config example_home)
     (new_converter (Some Garbage)))) = Some Garbage"
proof -
  have g: "config_file (new_converter (Some Garbage)) = Some Garbage"
    "error_log (new_converter (Some Garbage)) = []"
    by (simp_all add: new_converter_def)
  have w: "OpenWriteFails \<noteq> WriteOk"
    by simp
  from config_errors_fail_soft
         [of ReadOk "new_converter (Some Garbage)" OpenWriteFails
             "default_config example_home" "Some Garbage" example_home]
       g w
  show ?thesis by simp
qed

text \<open>
  C5 as stated fails: on a first launch whose write fails after the file was opened, the
  save is not a no-op: it leaves a file that does not parse where there was none, and the
  load of the same launch then fails on it.
\<close>

theorem config_errors_fail_soft_counterexample:
  "config_file (new_converter None) = None \<and>
   config_file (fst (save_config DumpFails (default_config example_home) (new_converter None))) =
     Some Garbage \<and>
   error_log (fst (init example_home True DumpFails ReadOk None)) =
     [FailedToSave OSError, FailedToLoad JSONDecodeError]"
  by (simp add: init_def init_config_def save_config_def new_converter_def setup_gui_def
      load_saved_config_def load_body_def)

section \<open>The build orchestrator: one build at a time\<close>

lemma filter_update_active_stop:
  "(\<And>r. is_running r \<Longrightarrow> \<not> is_running (f r)) \<Longrightarrow> filter is_running (update_active f rs) = []"
  by (induction rs) (auto simp: update_active_def)

lemma length_filter_update_active:
  "length (filter is_running (update_active f rs)) \<le> length (filter is_running rs)"
  by (induction rs) (auto simp: update_active_def)

lemma running_step:
  "length (filter is_running (runs s)) \<le> 1 \<Longrightarrow>
   length (filter is_running (runs (step T N s e))) \<le> 1"
proof (cases e)
  case BuildAPK
  assume "length (filter is_running (runs s)) \<le> 1"
  then show ?thesis
    using BuildAPK by (auto simp: active_def new_run_def is_running_def)
next
  case (Line l)
  assume "length (filter is_running (runs s)) \<le> 1"
  then show ?thesis
    using Line length_filter_update_active [of "on_line T l" "runs s"] by simp
next
  case (Exit c)
  assume "length (filter is_running (runs s)) \<le> 1"
  then show ?thesis
    using Exit length_filter_update_active [of "on_exit c" "runs s"]
    by (auto simp: Let_def split: option.splits)
next
  case Cancel
  assume "length (filter is_running (runs s)) \<le> 1"
  then show ?thesis
    using Cancel
      length_filter_update_active [of "\<lambda>r. r\<lparr>cancel_requested := True\<rparr>" "runs s"]
    by simp
qed

lemma running_exec:
  "length (filter is_running (runs s)) \<le> 1 \<Longrightarrow>
   length (filter is_running (runs (exec T N s es))) \<le> 1"
  unfolding exec_def
proof (induction es arbitrary: s)
  case Nil
  then show ?case by simp
next
  case (Cons e es)
  from running_step [OF Cons.prems]
  have "length (filter is_running (runs (step T N s e))) \<le> 1" .
  from Cons.IH [OF this] show ?case by simp
qed

text \<open>
  C7. In every state the application reaches from idle, at most one BuildRun is active;
  and in every state where one is active, the Build APK action starts no run: the runs
  stay as they are and the action ends in a message to the user.
\<close>

theorem at_most_one_active_run:
  "length (filter is_running (runs (exec T N (initial script out fs lod) es))) \<le> 1 \<and>
   (active s \<longrightarrow>
      runs (step T N s BuildAPK) = runs s \<and>
      (\<exists>n. notices (step T N s BuildAPK) = notices s @ [n] \<and>
           (n = ValidationMessage \<or> n = BuildRejected)))"
proof
  have "length (filter is_running (runs (initial script out fs lod))) \<le> 1"
    by (simp add: initial_def)
  then show "length (filter is_running (runs (exec T N (initial script out fs lod) es))) \<le> 1"
    by (rule running_exec)
next
  show "active s \<longrightarrow>
      runs (step T N s BuildAPK) = runs s \<and>
      (\<exists>n. notices (step T N s BuildAPK) = notices s @ [n] \<and>
           (n = ValidationMessage \<or> n = BuildRejected))"
    by simp
qed

theorem at_most_one_active_run_witness:
  "runs (exec example_markers 2 example_form [BuildAPK, BuildAPK]) = [new_run] \<and>
   notices (exec example_markers 2 example_form [BuildAPK, BuildAPK]) = [BuildRejected]"
proof -
  let ?s = "step example_markers 2 example_form BuildAPK"
  have s: "?s = example_form\<lparr>runs := [new_run], trigger_enabled := False\<rparr>"
    by (simp add: example_form_def initial_def active_def)
  have a: "active ?s"
    by (simp only: s) (simp add: active_def new_run_def is_running_def)
  have e: "exec example_markers 2 example_form [BuildAPK, BuildAPK] =
             step example_markers 2 ?s BuildAPK"
    by (simp add: exec_def)
  have r: "runs ?s = [new_run]" and n: "notices ?s = []"
    by (simp_all only: s) (simp_all add: example_form_def initial_def)
  have nv: "notices (step example_markers 2 ?s BuildAPK) \<noteq> notices ?s @ [ValidationMessage]"
    using a by (simp only: s) (simp add: example_form_def initial_def)
  from at_most_one_active_run [of example_markers 2 "''x''" "''y''" "[]" "''z''" "[]" ?s] a nv r n
  show ?thesis
    unfolding e by (auto simp del: step.simps)
qed

text \<open>
  C8. The Build APK action changes the runs only when the script path and the output
  directory are non-empty and the script path exists on disk; in every other form state
  it adds the validation message and nothing else.
\<close>

theorem build_needs_valid_form:
  "(runs (step T N s BuildAPK) \<noteq> runs s \<longrightarrow>
      script_path s \<noteq> [] \<and> output_directory s \<noteq> [] \<and> script_path s \<in> set (files s)) \<and>
   (script_path s = [] \<or> output_directory s = [] \<or> script_path s \<notin> set (files s) \<longrightarrow>
      step T N s BuildAPK = s\<lparr>notices := notices s @ [ValidationMessage]\<rparr>)"
  by auto

theorem build_needs_valid_form_witness:
  "runs (step example_markers 2 example_form BuildAPK) = [new_run] \<and>
   step example_markers 2 (initial ''/s.py'' [] [''/s.py''] ''/home'') BuildAPK =
     (initial ''/s.py'' [] [''/s.py''] ''/home'')\<lparr>notices := [ValidationMessage]\<rparr>"
proof -
  have a: "runs (step example_markers 2 example_form BuildAPK)
             \<noteq> runs example_form"
    by (simp add: example_form_def initial_def active_def)
  have b: "output_directory (initial ''/s.py'' [] [''/s.py''] ''/home'') = []"
    by (simp add: example_form_def initial_def)
  from build_needs_valid_form [of example_markers 2 "example_form"]
       build_needs_valid_form [of example_markers 2 "initial ''/s.py'' [] [''/s.py''] ''/home''"]
       a b
  show ?thesis by (simp add: example_form_def initial_def active_def)
qed

section \<open>The build orchestrator: completion and progress\<close>

lemma find_unique: "filter P xs = [r] \<Longrightarrow> find P xs = Some r"
  by (induction xs) (auto split: if_splits)

text \<open>
  C9. When the subprocess of the active BuildRun completes, no cancellation having been
  requested (cancellation is the separate path of the specification and ends the run
  cancelled), the exit code decides the terminal status. On exit code 0 the run is
  succeeded with progress 100, the success status is shown, and the output directory is
  recorded in the UserConfig and persisted; on any other exit code the run is failed and
  the last \<open>N\<close> lines of its log are surfaced in a failure message of their own. Either
  way no run is active afterwards and the build trigger is enabled again.
\<close>

theorem exit_code_decides:
  assumes "filter is_running (runs s) = [r]" and "\<not> cancel_requested r"
  shows "runs (step T N s (Exit c)) = update_active (on_exit c) (runs s) \<and>
         filter is_running (runs (step T N s (Exit c))) = [] \<and>
         trigger_enabled (step T N s (Exit c)) \<and>
         (c = 0 \<longrightarrow>
            on_exit c r = r\<lparr>progress := 100, status := succeeded\<rparr> \<and>
            last_output_dir (step T N s (Exit c)) = output_directory s \<and>
            saved (step T N s (Exit c)) = saved s @ [output_directory s] \<and>
            notices (step T N s (Exit c)) = notices s @ [SuccessStatus]) \<and>
         (c \<noteq> 0 \<longrightarrow>
            on_exit c r = r\<lparr>status := failed\<rparr> \<and>
            last_output_dir (step T N s (Exit c)) = last_output_dir s \<and>
            saved (step T N s (Exit c)) = saved s \<and>
            notices (step T N s (Exit c)) = notices s @ [FailureMessage (tail N (log_lines r))])"
proof -
  have f: "find is_running (runs s) = Some r"
    using assms(1) by (rule find_unique)
  have stop: "filter is_running (update_active (on_exit c') (runs s)) = []" for c'
    by (rule filter_update_active_stop) (simp add: on_exit_def is_running_def)
  show ?thesis
    using f assms(2) stop by (simp add: Let_def on_exit_def)
qed

theorem exit_code_decides_witness:
  "map status (runs (exec example_markers 2 example_form
      [BuildAPK, Line ''Compiling a'', Line ''error: b'', Line ''stopped'', Exit 1])) = [failed] \<and>
   notices (exec example_markers 2 example_form
      [BuildAPK, Line ''Compiling a'', Line ''error: b'', Line ''stopped'', Exit 1]) =
     [FailureMessage [''error: b'', ''stopped'']] \<and>
   trigger_enabled (exec example_markers 2 example_form
      [BuildAPK, Line ''Compiling a'', Line ''error: b'', Line ''stopped'', Exit 1]) \<and>
   map status (runs (exec example_markers 2 example_form
      [BuildAPK, Line ''Compiling a'', Line ''error: b'', Line ''stopped'', Exit 0])) = [succeeded] \<and>
   map progress (runs (exec example_markers 2 example_form
      [BuildAPK, Line ''Compiling a'', Line ''error: b'', Line ''stopped'', Exit 0])) = [100] \<and>
   notices (exec example_markers 2 example_form
      [BuildAPK, Line ''Compiling a'', Line ''error: b'', Line ''stopped'', Exit 0]) =
     [SuccessStatus] \<and>
   last_output_dir (exec example_markers 2 example_form
      [BuildAPK, Line ''Compiling a'', Line ''error: b'', Line ''stopped'', Exit 0]) =
     ''/home/u/out'' \<and>
   saved (exec example_markers 2 example_form
      [BuildAPK, Line ''Compiling a'', Line ''error: b'', Line ''stopped'', Exit 0]) =
     [''/home/u/out'']"
proof -
  let ?s = "exec example_markers 2 example_form
      [BuildAPK, Line ''Compiling a'', Line ''error: b'', Line ''stopped'']"
  let ?r = "\<lparr>log_lines = [''Compiling a'', ''error: b'', ''stopped''], progress = 50,
             status = running, cancel_requested = False\<rparr>"
  have s: "?s = example_form\<lparr>runs := [?r], trigger_enabled := False\<rparr>"
    by (simp add: exec_def example_form_def initial_def active_def new_run_def update_active_def is_running_def
        on_line_def marker_progress_def example_markers_def)
  have one: "filter is_running (runs ?s) = [?r]"
    by (simp add: s is_running_def)
  have nc: "\<not> cancel_requested ?r"
    by simp
  have e: "exec example_markers 2 example_form
      [BuildAPK, Line ''Compiling a'', Line ''error: b'', Line ''stopped'', Exit c] =
      step example_markers 2 ?s (Exit c)" for c
    by (simp add: exec_def)
  have r1: "update_active (on_exit 1) (runs ?s) = [?r\<lparr>status := failed\<rparr>]"
    by (simp add: s update_active_def is_running_def on_exit_def)
  have r0: "update_active (on_exit 0) (runs ?s) = [?r\<lparr>progress := 100, status := succeeded\<rparr>]"
    by (simp add: s update_active_def is_running_def on_exit_def)
  have tl: "tail 2 (log_lines ?r) = [''error: b'', ''stopped'']"
    by (simp add: tail_def)
  have "notices ?s = notices (example_form\<lparr>runs := [?r], trigger_enabled := False\<rparr>)"
    and "saved ?s = saved (example_form\<lparr>runs := [?r], trigger_enabled := False\<rparr>)"
    and "output_directory ?s =
           output_directory (example_form\<lparr>runs := [?r], trigger_enabled := False\<rparr>)"
    by (simp_all only: s)
  then have n: "notices ?s = []" "saved ?s = []" "output_directory ?s = ''/home/u/out''"
    by (simp_all add: example_form_def initial_def)
  from exit_code_decides [OF one nc, of example_markers 2 1]
       exit_code_decides [OF one nc, of example_markers 2 0] r1 r0 tl n
  show ?thesis
    unfolding e by (simp del: step.simps)
qed

lemma on_line_le: "progress r \<le> progress (on_line T l r)"
  by (simp add: on_line_def split: option.splits)

lemma marker_progress_le: "percentages T \<Longrightarrow> marker_progress T l = Some p \<Longrightarrow> p \<le> 100"
  by (induction T) (auto simp: marker_progress_def percentages_def split: if_splits)

lemma on_line_bound: "percentages T \<Longrightarrow> progress r \<le> 100 \<Longrightarrow> progress (on_line T l r) \<le> 100"
  by (auto simp: on_line_def dest: marker_progress_le split: option.splits)

lemma on_exit_le: "progress r \<le> 100 \<Longrightarrow> progress r \<le> progress (on_exit c r)"
  by (simp add: on_exit_def)

lemma on_exit_bound: "progress r \<le> 100 \<Longrightarrow> progress (on_exit c r) \<le> 100"
  by (simp add: on_exit_def)

lemma step_bound:
  assumes "percentages T" and "\<forall>r \<in> set (runs s). progress r \<le> 100"
  shows "\<forall>r \<in> set (runs (step T N s e)). progress r \<le> 100"
  using assms
  by (cases e)
     (auto simp: update_active_def new_run_def Let_def on_line_bound on_exit_bound
        split: option.splits)

lemma step_mono:
  assumes "\<forall>r \<in> set (runs s). progress r \<le> 100" and "k < length (runs s)"
  shows "k < length (runs (step T N s e)) \<and>
         progress (runs s ! k) \<le> progress (runs (step T N s e) ! k)"
proof -
  have b: "progress (runs s ! k) \<le> 100"
    using assms by simp
  show ?thesis
    using assms(2) b
    by (cases e)
       (auto simp: update_active_def nth_append Let_def on_line_le on_exit_le
          split: option.splits)
qed

lemma exec_mono:
  assumes "percentages T" and "\<forall>r \<in> set (runs s). progress r \<le> 100" and "k < length (runs s)"
  shows "k < length (runs (exec T N s es)) \<and>
         progress (runs s ! k) \<le> progress (runs (exec T N s es) ! k)"
  using assms(2,3)
proof (induction es arbitrary: s)
  case Nil
  then show ?case by (simp add: exec_def)
next
  case (Cons e es)
  have b: "\<forall>r \<in> set (runs (step T N s e)). progress r \<le> 100"
    using assms(1) Cons.prems(1) by (rule step_bound)
  have m: "k < length (runs (step T N s e)) \<and>
           progress (runs s ! k) \<le> progress (runs (step T N s e) ! k)"
    using Cons.prems by (rule step_mono)
  from Cons.IH [OF b] m
  have "k < length (runs (exec T N (step T N s e) es)) \<and>
        progress (runs (step T N s e) ! k) \<le> progress (runs (exec T N (step T N s e) es) ! k)"
    by simp
  with m show ?case
    by (simp add: exec_def)
qed

lemma exec_bound:
  assumes "percentages T" and "\<forall>r \<in> set (runs s). progress r \<le> 100"
  shows "\<forall>r \<in> set (runs (exec T N s es)). progress r \<le> 100"
  using assms(2) unfolding exec_def
proof (induction es arbitrary: s)
  case Nil
  then show ?case by simp
next
  case (Cons e es)
  from step_bound [OF assms(1) Cons.prems]
  have "\<forall>r \<in> set (runs (step T N s e)). progress r \<le> 100" .
  from Cons.IH [OF this] show ?case by simp
qed

lemma exec_append: "exec T N s (es1 @ es2) = exec T N (exec T N s es1) es2"
  by (simp add: exec_def)

text \<open>
  C10. With a table of percentages, the progress of a BuildRun never decreases: whatever
  events follow, the run that is number \<open>k\<close> after a trace is still number \<open>k\<close> after the
  longer trace and its progress is at least what it was.
\<close>

theorem progress_never_decreases:
  assumes "percentages T"
    and "k < length (runs (exec T N (initial script out fs lod) es1))"
  shows "k < length (runs (exec T N (initial script out fs lod) (es1 @ es2))) \<and>
         progress (runs (exec T N (initial script out fs lod) es1) ! k) \<le>
         progress (runs (exec T N (initial script out fs lod) (es1 @ es2)) ! k)"
proof -
  have "\<forall>r \<in> set (runs (initial script out fs lod)). progress r \<le> 100"
    by (simp add: initial_def)
  with assms(1) have "\<forall>r \<in> set (runs (exec T N (initial script out fs lod) es1)). progress r \<le> 100"
    by (rule exec_bound)
  from exec_mono [OF assms(1) this assms(2)] show ?thesis
    by (simp add: exec_append)
qed

theorem progress_never_decreases_witness:
  "progress (runs (exec example_markers 2 example_form
      [BuildAPK, Line ''Compiling a'']) ! 0) = 50 \<and>
   50 \<le> progress (runs (exec example_markers 2 example_form
      ([BuildAPK, Line ''Compiling a''] @ [Line ''Downloading b'', Line ''Done'', Exit 0])) ! 0)"
proof -
  have p: "percentages example_markers"
    by (simp add: percentages_def example_markers_def)
  have s: "runs (exec example_markers 2 example_form
      [BuildAPK, Line ''Compiling a'']) =
      [\<lparr>log_lines = [''Compiling a''], progress = 50, status = running, cancel_requested = False\<rparr>]"
    by (simp add: exec_def example_form_def initial_def active_def new_run_def update_active_def is_running_def
        on_line_def marker_progress_def example_markers_def)
  have k: "0 < length (runs (exec example_markers 2 example_form
      [BuildAPK, Line ''Compiling a'']))"
    by (simp add: s)
  note mono = progress_never_decreases
      [OF p k [unfolded example_form_def],
       of "[Line ''Downloading b'', Line ''Done'', Exit 0]", folded example_form_def]
  from mono show ?thesis
    by (simp add: s)
qed

end
